theory Spec2Isabelle
  imports Main "HOL-Library.Word"
begin

unbundle bit_operations_syntax

section \<open>Data model of \<open>mc/Connection.cpp\<close>\<close>

text \<open>
  The development embeds \<open>Minecraft::Connection\<close> (file \<open>src/mc/Connection.cpp\<close>).
  Every member function of the class becomes a function on an explicit connection
  state. The collaborators the class is linked against (socket, name resolution,
  identity service, cipher, compressor, serialiser, packet factory) are not part of the
  file; they are the fields of an environment record that every member function takes,
  so each theorem holds for all of their implementations.
\<close>

type_synonym byte = "8 word"
type_synonym u16 = "16 word"
type_synonym f64 = "64 word"
type_synonym f32 = "32 word"

text \<open>The exceptions the file catches or lets escape.\<close>

datatype exn = out_of_range | UnfinishedProtocolException

text \<open>\<open>Protocol::State\<close>; the file names \<open>Login\<close> and \<open>Play\<close>.\<close>

datatype State = Handshake | Status | Login | Play

text \<open>
  Modelled from the spec: \<open>Network::Socket::Status\<close>, declared outside the file; the
  spec lists the transport's status as Connected or Disconnected.
\<close>

datatype SocketStatus = Connected | Disconnected

text \<open>
  \<open>Network::IPAddress\<close>: the file only ever builds one from the host text, or gets
  a list of them from the resolver; an address is identified by its text.
\<close>

datatype IPAddress = IPAddress string

text \<open>The three callbacks of \<open>ConnectionListener\<close> the file invokes.\<close>

datatype ListenerEvent =
    OnSocketStateChange SocketStatus
  | OnLogin bool
  | OnAuthentication bool string

text \<open>
  Inbound packets, by the overload of \<open>HandlePacket\<close> that receives them, with the
  fields the handlers read. \<open>OtherPacket\<close> stands for every packet class the connection
  has no overload for. Coordinates are carried as their bit patterns.
\<close>

datatype InboundPacket =
    KeepAlivePacket int
  | PlayerPositionAndLookPacket f64 f64 f64 f32 f32
  | DisconnectPacket
  | EncryptionRequestPacket string string string
  | LoginSuccessPacket
  | SetCompressionPacket int
  | OtherPacket nat

datatype ClientStatusAction = PerformRespawn

text \<open>Outbound packets the file constructs.\<close>

datatype OutboundPacket =
    OutKeepAlivePacket int
  | OutPlayerPositionAndLookPacket f64 f64 f64 f32 f32 bool
  | ClientStatusPacket ClientStatusAction
  | EncryptionResponsePacket "byte list" "byte list"
  | HandshakePacket int string u16 State
  | LoginStartPacket string

text \<open>What a call into the identity service does: return a flag, or throw
  \<open>YggdrasilException\<close> with a message (\<open>e.what()\<close>).\<close>

datatype YggdrasilResult = Returns bool | Throws string

text \<open>What \<open>PacketFactory::CreatePacket\<close> does: return a packet, return a null
  pointer, or throw \<open>UnfinishedProtocolException\<close>.\<close>

datatype FactoryResult = Created InboundPacket | NullPacket | ThrowsUnfinished

text \<open>
  The two strategy members. \<open>m_Encrypter\<close> points to an \<open>EncryptionStrategyNone\<close> or
  to an \<open>EncryptionStrategyAES\<close> object whose cipher state is \<open>'e\<close>;
  \<open>m_Compressor\<close> to a \<open>CompressionNone\<close> or to a \<open>CompressionZ\<close> built from
  \<open>GetMaxPacketSize()\<close>.
\<close>

datatype 'e EncryptionStrategy = EncryptionStrategyNone | EncryptionStrategyAES 'e

datatype CompressionStrategy = CompressionNone | CompressionZ int

subsection \<open>\<open>DataBuffer\<close> and \<open>VarInt\<close>\<close>

text \<open>
  Modelled from the spec: \<open>DataBuffer\<close> is declared outside the file. The spec's
  PendingBuffer is an ordered byte sequence with a read cursor; bytes before the cursor
  are consumed.
\<close>

record DataBuffer =
  m_Buffer :: "byte list"
  m_ReadOffset :: nat

definition DataBuffer_new :: DataBuffer where
  "DataBuffer_new = \<lparr>m_Buffer = [], m_ReadOffset = 0\<rparr>"

definition GetReadOffset :: "DataBuffer \<Rightarrow> nat" where
  "GetReadOffset b = m_ReadOffset b"

definition SetReadOffset :: "DataBuffer \<Rightarrow> nat \<Rightarrow> DataBuffer" where
  "SetReadOffset b n = b\<lparr>m_ReadOffset := n\<rparr>"

definition GetSize :: "DataBuffer \<Rightarrow> nat" where
  "GetSize b = length (m_Buffer b)"

text \<open>The cursor never passes the end in a buffer the connection builds
  (\<open>buffer_ok\<close> below), so the subtraction does not go below zero.\<close>

definition GetRemaining :: "DataBuffer \<Rightarrow> nat" where
  "GetRemaining b = length (m_Buffer b) - m_ReadOffset b"

definition IsFinished :: "DataBuffer \<Rightarrow> bool" where
  "IsFinished b = (m_ReadOffset b \<ge> length (m_Buffer b))"

text \<open>\<open>buffer << bytes\<close>: the bytes are appended at the end; the cursor stays.\<close>

definition append_bytes :: "DataBuffer \<Rightarrow> byte list \<Rightarrow> DataBuffer" where
  "append_bytes b bs = b\<lparr>m_Buffer := m_Buffer b @ bs\<rparr>"

text \<open>
  Modelled from the spec: the constructor \<open>DataBuffer(other, offset)\<close> compacts the
  buffer to only the unconsumed remainder, with the cursor reset to zero.
\<close>

definition DataBuffer_from :: "DataBuffer \<Rightarrow> nat \<Rightarrow> DataBuffer" where
  "DataBuffer_from other offset = \<lparr>m_Buffer = drop offset (m_Buffer other), m_ReadOffset = 0\<rparr>"

definition buffer_ok :: "DataBuffer \<Rightarrow> bool" where
  "buffer_ok b = (m_ReadOffset b \<le> length (m_Buffer b))"

text \<open>
  Modelled from the spec: \<open>VarInt\<close> and \<open>buffer >> length\<close> are declared outside the
  file. A VarInt has 7 data bits per byte, a set high bit means continuation, and the
  least significant group comes first. \<open>varint_span\<close> counts the bytes up to and
  including the terminating byte, and is \<open>None\<close> when no terminating byte is among the
  available bytes. The caller reads the value as \<open>(u32)length.GetInt()\<close>, so the value
  is kept in 32 bits.
\<close>

fun varint_span :: "byte list \<Rightarrow> nat option" where
  "varint_span [] = None"
| "varint_span (b # bs) =
     (if b AND 0x80 = 0 then Some 1
      else (case varint_span bs of None \<Rightarrow> None | Some n \<Rightarrow> Some (Suc n)))"

fun varint_value :: "byte list \<Rightarrow> 32 word" where
  "varint_value [] = 0"
| "varint_value (b # bs) = ucast (b AND 0x7F) + 128 * varint_value bs"

text \<open>
  Modelled from the spec: decoding fails with an "incomplete" condition (the
  \<open>std::out_of_range\<close> the file catches) if no terminating byte is found, and does not
  advance any read position when that happens; otherwise the cursor moves past the
  VarInt.
\<close>

definition read_VarInt :: "DataBuffer \<Rightarrow> exn + (32 word \<times> DataBuffer)" where
  "read_VarInt b =
     (let avail = drop (m_ReadOffset b) (m_Buffer b) in
      case varint_span avail of
        None \<Rightarrow> Inl out_of_range
      | Some n \<Rightarrow> Inr (varint_value (take n avail), b\<lparr>m_ReadOffset := m_ReadOffset b + n\<rparr>))"

text \<open>
  Modelled from the spec: reading the frame payload extracts exactly \<open>n\<close> wire bytes at
  the cursor and advances the cursor past them (what \<open>Decompress(buffer, length)\<close> does
  to the buffer it is given).
\<close>

definition read_payload :: "DataBuffer \<Rightarrow> nat \<Rightarrow> byte list \<times> DataBuffer" where
  "read_payload b n =
     (take n (drop (m_ReadOffset b) (m_Buffer b)), b\<lparr>m_ReadOffset := m_ReadOffset b + n\<rparr>)"

subsection \<open>The collaborators and the connection state\<close>

text \<open>
  The collaborators, as functions. \<open>'s\<close> is the state of the \<open>TCPSocket\<close>, \<open>'y\<close> that
  of the \<open>Yggdrasil\<close> member, \<open>'e\<close> that of an AES cipher object. A call that may
  change its object returns the new state.
\<close>

record ('s, 'y, 'e) env =
  sock_Connect :: "'s \<Rightarrow> IPAddress \<Rightarrow> u16 \<Rightarrow> bool \<times> 's"
  sock_Disconnect :: "'s \<Rightarrow> 's"
  sock_GetStatus :: "'s \<Rightarrow> SocketStatus"
  sock_Send :: "'s \<Rightarrow> byte list \<Rightarrow> 's"
  sock_Receive :: "'s \<Rightarrow> nat \<Rightarrow> byte list \<times> 's"
  dns_Resolve :: "string \<Rightarrow> IPAddress list"
  ygg_Authenticate :: "'y \<Rightarrow> string \<Rightarrow> string \<Rightarrow> YggdrasilResult \<times> 'y"
  ygg_JoinServer :: "'y \<Rightarrow> string \<Rightarrow> string \<Rightarrow> string \<Rightarrow> YggdrasilResult \<times> 'y"
  aes_new :: "string \<Rightarrow> string \<Rightarrow> 'e"
  aes_GenerateResponsePacket :: "'e \<Rightarrow> OutboundPacket"
  aes_GetSharedSecret :: "'e \<Rightarrow> string"
  aes_Encrypt :: "'e \<Rightarrow> byte list \<Rightarrow> byte list \<times> 'e"
  aes_Decrypt :: "'e \<Rightarrow> byte list \<Rightarrow> byte list \<times> 'e"
  z_Compress :: "int \<Rightarrow> byte list \<Rightarrow> byte list"
  z_Decompress :: "int \<Rightarrow> byte list \<Rightarrow> byte list"
  packet_Serialize :: "OutboundPacket \<Rightarrow> byte list"
  factory_CreatePacket :: "State \<Rightarrow> byte list \<Rightarrow> int \<Rightarrow> FactoryResult"

text \<open>
  The members of \<open>Connection\<close> the file reads or writes. \<open>m_Listeners\<close> is the
  listener list of the observer base class. Two fields record what leaves the object
  through calls that return nothing: \<open>notified\<close>, the listener callbacks made so far
  (oldest first), and \<open>dispatched\<close>, the packets handed to the dispatcher.
\<close>

record ('s, 'y, 'e) Connection =
  m_Encrypter :: "'e EncryptionStrategy"
  m_Compressor :: CompressionStrategy
  m_Socket :: 's
  m_Yggdrasil :: 'y
  m_ProtocolState :: State
  m_HandleBuffer :: DataBuffer
  m_Server :: string
  m_Port :: u16
  m_Username :: string
  m_Password :: string
  m_Listeners :: "nat list"
  notified :: "(nat \<times> ListenerEvent) list"
  dispatched :: "InboundPacket list"

text \<open>
  Modelled from the spec: \<open>NotifyListeners\<close> belongs to the observer base class,
  outside the file: the listeners are notified synchronously, in registration order.
\<close>

definition NotifyListeners ::
  "ListenerEvent \<Rightarrow> ('s, 'y, 'e) Connection \<Rightarrow> ('s, 'y, 'e) Connection" where
  "NotifyListeners ev st = st\<lparr>notified := notified st @ map (\<lambda>l. (l, ev)) (m_Listeners st)\<rparr>"

text \<open>
  Modelled from the spec: the strategies are declared outside the file; each disabled
  variant is the identity, the active variants are the collaborators' transforms.
\<close>

definition Encrypt :: "('s, 'y, 'e) env \<Rightarrow> 'e EncryptionStrategy \<Rightarrow> byte list
    \<Rightarrow> byte list \<times> 'e EncryptionStrategy" where
  "Encrypt env enc bs =
     (case enc of
        EncryptionStrategyNone \<Rightarrow> (bs, EncryptionStrategyNone)
      | EncryptionStrategyAES e \<Rightarrow>
          (fst (aes_Encrypt env e bs), EncryptionStrategyAES (snd (aes_Encrypt env e bs))))"

definition Decrypt :: "('s, 'y, 'e) env \<Rightarrow> 'e EncryptionStrategy \<Rightarrow> byte list
    \<Rightarrow> byte list \<times> 'e EncryptionStrategy" where
  "Decrypt env enc bs =
     (case enc of
        EncryptionStrategyNone \<Rightarrow> (bs, EncryptionStrategyNone)
      | EncryptionStrategyAES e \<Rightarrow>
          (fst (aes_Decrypt env e bs), EncryptionStrategyAES (snd (aes_Decrypt env e bs))))"

definition Compress :: "('s, 'y, 'e) env \<Rightarrow> CompressionStrategy \<Rightarrow> byte list \<Rightarrow> byte list" where
  "Compress env c bs =
     (case c of CompressionNone \<Rightarrow> bs | CompressionZ t \<Rightarrow> z_Compress env t bs)"

text \<open>\<open>m_Compressor->Decompress(buffer, length)\<close>: takes the payload from the buffer
  and returns the transformed bytes with the advanced buffer.\<close>

definition Decompress :: "('s, 'y, 'e) env \<Rightarrow> CompressionStrategy \<Rightarrow> DataBuffer \<Rightarrow> nat
    \<Rightarrow> byte list \<times> DataBuffer" where
  "Decompress env c b n =
     (let (payload, b') = read_payload b n in
      (case c of CompressionNone \<Rightarrow> payload | CompressionZ t \<Rightarrow> z_Decompress env t payload, b'))"

section \<open>The member functions\<close>

text \<open>The constructor: both strategies start as the disabled variants and the handle
  buffer is empty. The socket and identity-service objects, the initial protocol state
  (set outside the file) and the listeners are given.\<close>

definition Connection_new :: "'s \<Rightarrow> 'y \<Rightarrow> State \<Rightarrow> nat list \<Rightarrow> ('s, 'y, 'e) Connection" where
  "Connection_new sock ygg state0 listeners =
     \<lparr>m_Encrypter = EncryptionStrategyNone, m_Compressor = CompressionNone,
      m_Socket = sock, m_Yggdrasil = ygg, m_ProtocolState = state0,
      m_HandleBuffer = DataBuffer_new, m_Server = [], m_Port = 0,
      m_Username = [], m_Password = [], m_Listeners = listeners,
      notified = [], dispatched = []\<rparr>"

text \<open>\<open>Connection::SendPacket\<close> (lines 217-223).\<close>

definition SendPacket ::
  "('s, 'y, 'e) env \<Rightarrow> ('s, 'y, 'e) Connection \<Rightarrow> OutboundPacket \<Rightarrow> ('s, 'y, 'e) Connection" where
  "SendPacket env st packet =
     (let packetBuffer = packet_Serialize env packet;
          compressed = Compress env (m_Compressor st) packetBuffer;
          (encrypted, enc') = Encrypt env (m_Encrypter st) compressed
      in st\<lparr>m_Encrypter := enc', m_Socket := sock_Send env (m_Socket st) encrypted\<rparr>)"

text \<open>\<open>HandlePacket(KeepAlivePacket*)\<close> (lines 36-39).\<close>

definition HandleKeepAlive ::
  "('s, 'y, 'e) env \<Rightarrow> ('s, 'y, 'e) Connection \<Rightarrow> int \<Rightarrow> ('s, 'y, 'e) Connection" where
  "HandleKeepAlive env st aliveId = SendPacket env st (OutKeepAlivePacket aliveId)"

text \<open>\<open>HandlePacket(PlayerPositionAndLookPacket*)\<close> (lines 41-52).\<close>

definition HandlePlayerPositionAndLook ::
  "('s, 'y, 'e) env \<Rightarrow> ('s, 'y, 'e) Connection \<Rightarrow> f64 \<Rightarrow> f64 \<Rightarrow> f64 \<Rightarrow> f32 \<Rightarrow> f32
    \<Rightarrow> ('s, 'y, 'e) Connection" where
  "HandlePlayerPositionAndLook env st x y z yaw pitch =
     (let st1 = SendPacket env st (OutPlayerPositionAndLookPacket x y z yaw pitch True)
      in SendPacket env st1 (ClientStatusPacket PerformRespawn))"

text \<open>\<open>HandlePacket(DisconnectPacket*)\<close> (lines 54-61).\<close>

definition HandleDisconnect ::
  "('s, 'y, 'e) env \<Rightarrow> ('s, 'y, 'e) Connection \<Rightarrow> ('s, 'y, 'e) Connection" where
  "HandleDisconnect env st =
     (let st1 = st\<lparr>m_Socket := sock_Disconnect env (m_Socket st)\<rparr>;
          st2 = NotifyListeners (OnSocketStateChange (sock_GetStatus env (m_Socket st1))) st1
      in if m_ProtocolState st2 \<noteq> Play then NotifyListeners (OnLogin False) st2 else st2)"

text \<open>
  \<open>Connection::AuthenticateClient\<close> (lines 63-88). The two \<open>try\<close> blocks follow one
  another: the second runs whatever the first did. \<open>auth_step\<close> is the first block's
  effect on \<open>(success, error)\<close>, \<open>join_step\<close> the second's.
\<close>

definition auth_step :: "YggdrasilResult \<Rightarrow> bool \<times> string \<Rightarrow> bool \<times> string" where
  "auth_step r se =
     (case r of
        Returns ok \<Rightarrow> (if \<not> ok then (False, ''Failed to authenticate'') else se)
      | Throws what \<Rightarrow> (False, what))"

definition join_step :: "YggdrasilResult \<Rightarrow> bool \<times> string \<Rightarrow> bool \<times> string" where
  "join_step r se =
     (case r of
        Returns ok \<Rightarrow> (if \<not> ok then (False, ''Failed to join server through Yggdrasil.'') else se)
      | Throws what \<Rightarrow> (False, what))"

definition AuthenticateClient ::
  "('s, 'y, 'e) env \<Rightarrow> ('s, 'y, 'e) Connection \<Rightarrow> string \<Rightarrow> string \<Rightarrow> string
    \<Rightarrow> ('s, 'y, 'e) Connection" where
  "AuthenticateClient env st serverId sharedSecret pubkey =
     (let se0 = (True, []);
          (r1, y1) = ygg_Authenticate env (m_Yggdrasil st) (m_Username st) (m_Password st);
          se1 = auth_step r1 se0;
          (r2, y2) = ygg_JoinServer env y1 serverId sharedSecret pubkey;
          se2 = join_step r2 se1
      in NotifyListeners (OnAuthentication (fst se2) (snd se2)) (st\<lparr>m_Yggdrasil := y2\<rparr>))"

text \<open>\<open>HandlePacket(EncryptionRequestPacket*)\<close> (lines 90-103). The response is sent
  through the encrypter in place before the swap. The two getters called on the new
  cipher object leave it as constructed.\<close>

definition HandleEncryptionRequest ::
  "('s, 'y, 'e) env \<Rightarrow> ('s, 'y, 'e) Connection \<Rightarrow> string \<Rightarrow> string \<Rightarrow> string
    \<Rightarrow> ('s, 'y, 'e) Connection" where
  "HandleEncryptionRequest env st serverId pubkey verify =
     (let aesEncrypter = aes_new env pubkey verify;
          encResp = aes_GenerateResponsePacket env aesEncrypter;
          st1 = AuthenticateClient env st serverId (aes_GetSharedSecret env aesEncrypter) pubkey;
          st2 = SendPacket env st1 encResp
      in st2\<lparr>m_Encrypter := EncryptionStrategyAES aesEncrypter\<rparr>)"

text \<open>\<open>HandlePacket(LoginSuccessPacket*)\<close> (lines 105-109).\<close>

definition HandleLoginSuccess :: "('s, 'y, 'e) Connection \<Rightarrow> ('s, 'y, 'e) Connection" where
  "HandleLoginSuccess st = NotifyListeners (OnLogin True) (st\<lparr>m_ProtocolState := Play\<rparr>)"

text \<open>\<open>HandlePacket(SetCompressionPacket*)\<close> (lines 111-114).\<close>

definition HandleSetCompression ::
  "('s, 'y, 'e) Connection \<Rightarrow> int \<Rightarrow> ('s, 'y, 'e) Connection" where
  "HandleSetCompression st maxPacketSize = st\<lparr>m_Compressor := CompressionZ maxPacketSize\<rparr>"

text \<open>The overload chosen by the packet's class.\<close>

fun HandlePacket ::
  "('s, 'y, 'e) env \<Rightarrow> ('s, 'y, 'e) Connection \<Rightarrow> InboundPacket \<Rightarrow> ('s, 'y, 'e) Connection" where
  "HandlePacket env st (KeepAlivePacket aliveId) = HandleKeepAlive env st aliveId"
| "HandlePacket env st (PlayerPositionAndLookPacket x y z yaw pitch) =
     HandlePlayerPositionAndLook env st x y z yaw pitch"
| "HandlePacket env st DisconnectPacket = HandleDisconnect env st"
| "HandlePacket env st (EncryptionRequestPacket serverId pubkey verify) =
     HandleEncryptionRequest env st serverId pubkey verify"
| "HandlePacket env st LoginSuccessPacket = HandleLoginSuccess st"
| "HandlePacket env st (SetCompressionPacket maxPacketSize) = HandleSetCompression st maxPacketSize"
| "HandlePacket env st (OtherPacket n) = st"

text \<open>The registrations of the constructor (lines 20-27): the (state, packet) pairs
  for which the dispatcher calls back into the connection.\<close>

fun registered :: "State \<Rightarrow> InboundPacket \<Rightarrow> bool" where
  "registered Login DisconnectPacket = True"
| "registered Login (EncryptionRequestPacket serverId pubkey verify) = True"
| "registered Login LoginSuccessPacket = True"
| "registered Login (SetCompressionPacket n) = True"
| "registered Play (KeepAlivePacket aliveId) = True"
| "registered Play (PlayerPositionAndLookPacket x y z yaw pitch) = True"
| "registered Play DisconnectPacket = True"
| "registered s p = False"

text \<open>
  Modelled from the spec: the dispatcher is declared outside the file;
  \<open>dispatch(message)\<close> routes the message to the handler registered for the current
  state and the message's identifier.
\<close>

definition Dispatch ::
  "('s, 'y, 'e) env \<Rightarrow> ('s, 'y, 'e) Connection \<Rightarrow> InboundPacket \<Rightarrow> ('s, 'y, 'e) Connection" where
  "Dispatch env st packet =
     (let st1 = st\<lparr>dispatched := dispatched st @ [packet]\<rparr>
      in if registered (m_ProtocolState st1) packet then HandlePacket env st1 packet else st1)"

text \<open>\<open>isdigit\<close> on the host's first character.\<close>

definition isdigit :: "char \<Rightarrow> bool" where
  "isdigit c = (c \<in> set ''0123456789'')"

text \<open>The \<open>for\<close> loop of \<open>Connect\<close> (lines 130-135): the first address the socket
  connects to ends it.\<close>

fun try_addrs :: "('s, 'y, 'e) env \<Rightarrow> 's \<Rightarrow> IPAddress list \<Rightarrow> u16 \<Rightarrow> bool \<times> 's" where
  "try_addrs env s [] port = (False, s)"
| "try_addrs env s (addr # addrs) port =
     (if fst (sock_Connect env s addr port) then (True, snd (sock_Connect env s addr port))
      else try_addrs env (snd (sock_Connect env s addr port)) addrs port)"

text \<open>
  \<open>Connection::Connect\<close> (lines 116-142). \<open>m_Server.at(0)\<close> throws
  \<open>std::out_of_range\<close> on an empty host, after the two assignments; the result is
  \<open>Inl\<close> then, and \<open>Inr\<close> of the returned flag otherwise. \<open>Connect_finish\<close> is the
  tail of the function (lines 138-141).
\<close>

definition Connect_finish ::
  "('s, 'y, 'e) env \<Rightarrow> ('s, 'y, 'e) Connection \<Rightarrow> bool \<times> 's
    \<Rightarrow> (exn + bool) \<times> ('s, 'y, 'e) Connection" where
  "Connect_finish env st r =
     (let st1 = st\<lparr>m_Socket := snd r\<rparr>
      in (Inr (fst r),
          if fst r then NotifyListeners (OnSocketStateChange (sock_GetStatus env (m_Socket st1))) st1
          else st1))"

definition Connect ::
  "('s, 'y, 'e) env \<Rightarrow> ('s, 'y, 'e) Connection \<Rightarrow> string \<Rightarrow> u16
    \<Rightarrow> (exn + bool) \<times> ('s, 'y, 'e) Connection" where
  "Connect env st server port =
     (let st1 = st\<lparr>m_Server := server, m_Port := port\<rparr> in
      case m_Server st1 of
        [] \<Rightarrow> (Inl out_of_range, st1)
      | c # cs \<Rightarrow>
          if isdigit c then
            Connect_finish env st1 (sock_Connect env (m_Socket st1) (IPAddress (m_Server st1)) (m_Port st1))
          else
            (let addrs = dns_Resolve env (m_Server st1) in
             if length addrs = 0 then (Inr False, st1)
             else Connect_finish env st1 (try_addrs env (m_Socket st1) addrs (m_Port st1))))"

text \<open>\<open>Connection::Login\<close> (lines 204-215).\<close>

definition Login_op ::
  "('s, 'y, 'e) env \<Rightarrow> ('s, 'y, 'e) Connection \<Rightarrow> string \<Rightarrow> string \<Rightarrow> ('s, 'y, 'e) Connection" where
  "Login_op env st username password =
     (let st1 = SendPacket env st (HandshakePacket 47 (m_Server st) (m_Port st) Login);
          st2 = SendPacket env st1 (LoginStartPacket username)
      in st2\<lparr>m_Username := username, m_Password := password, m_ProtocolState := Login\<rparr>)"

subsection \<open>Frame extraction and the poll cycle\<close>

text \<open>
  \<open>Connection::CreatePacket(DataBuffer&)\<close> (lines 144-166). The result is the returned
  pointer (\<open>Inr None\<close> for \<open>nullptr\<close>) or the exception that escapes (\<open>Inl\<close>), with
  the buffer as the call leaves it. The declared length is compared as
  \<open>(u32)length.GetInt()\<close> and handed to the factory as \<open>length.GetInt()\<close>; the
  payload is read with the declared length as an unsigned number (a length of
  \<open>2^31\<close> or more gets past the comparison only with that many bytes buffered).
\<close>

definition CreatePacket_buffer ::
  "('s, 'y, 'e) env \<Rightarrow> ('s, 'y, 'e) Connection \<Rightarrow> DataBuffer
    \<Rightarrow> (exn + InboundPacket option) \<times> DataBuffer" where
  "CreatePacket_buffer env st buffer =
     (let readOffset = GetReadOffset buffer in
      case read_VarInt buffer of
        Inl e \<Rightarrow> (Inr None, buffer)
      | Inr (len, buffer1) \<Rightarrow>
          if GetRemaining buffer1 < unat len then (Inr None, SetReadOffset buffer1 readOffset)
          else
            (let (decompressed, buffer2) = Decompress env (m_Compressor st) buffer1 (unat len) in
             (case factory_CreatePacket env (m_ProtocolState st) decompressed (sint len) of
                Created packet \<Rightarrow> Inr (Some packet)
              | NullPacket \<Rightarrow> Inr None
              | ThrowsUnfinished \<Rightarrow> Inl UnfinishedProtocolException,
              buffer2)))"

text \<open>The condition of the \<open>do ... while\<close> (line 196).\<close>

definition loop_cond :: "('s, 'y, 'e) Connection \<Rightarrow> bool" where
  "loop_cond st = (\<not> IsFinished (m_HandleBuffer st) \<and> GetSize (m_HandleBuffer st) > 0)"

text \<open>
  One pass through the body of the loop (lines 185-195) and its condition: the flag
  says whether another pass follows. A null packet breaks out; a caught
  \<open>UnfinishedProtocolException\<close> goes on to the condition.
\<close>

definition poll_step ::
  "('s, 'y, 'e) env \<Rightarrow> ('s, 'y, 'e) Connection \<Rightarrow> bool \<times> ('s, 'y, 'e) Connection" where
  "poll_step env st =
     (case CreatePacket_buffer env st (m_HandleBuffer st) of
        (Inr (Some packet), b) \<Rightarrow>
          (let st1 = Dispatch env (st\<lparr>m_HandleBuffer := b\<rparr>) packet in (loop_cond st1, st1))
      | (Inr None, b) \<Rightarrow> (False, st\<lparr>m_HandleBuffer := b\<rparr>)
      | (Inl e, b) \<Rightarrow> (let st1 = st\<lparr>m_HandleBuffer := b\<rparr> in (loop_cond st1, st1)))"

lemma varint_span_pos: "varint_span bs = Some n \<Longrightarrow> 0 < n \<and> n \<le> length bs"
  by (induction bs arbitrary: n) (auto split: if_splits option.splits)

lemma read_VarInt_Inr:
  "read_VarInt b = Inr (v, b') \<Longrightarrow>
     m_Buffer b' = m_Buffer b \<and> m_ReadOffset b < m_ReadOffset b'
     \<and> m_ReadOffset b' \<le> m_ReadOffset b + length (drop (m_ReadOffset b) (m_Buffer b))"
  by (auto simp: read_VarInt_def Let_def split: option.splits dest: varint_span_pos)

lemma read_VarInt_Inl: "read_VarInt b = Inl e \<Longrightarrow> e = out_of_range"
  by (auto simp: read_VarInt_def Let_def split: option.splits)

lemma Decompress_buffer:
  "snd (Decompress env c b n) = b\<lparr>m_ReadOffset := m_ReadOffset b + n\<rparr>"
  by (simp add: Decompress_def read_payload_def)

lemma CreatePacket_buffer_bytes:
  "m_Buffer (snd (CreatePacket_buffer env st b)) = m_Buffer b"
  by (auto simp: CreatePacket_buffer_def Let_def SetReadOffset_def Decompress_def
      read_payload_def split: sum.splits prod.splits dest: read_VarInt_Inr)

lemma CreatePacket_buffer_offset_mono:
  "m_ReadOffset b \<le> m_ReadOffset (snd (CreatePacket_buffer env st b))"
  by (auto simp: CreatePacket_buffer_def Let_def SetReadOffset_def GetReadOffset_def
      Decompress_def read_payload_def split: sum.splits prod.splits dest!: read_VarInt_Inr)

lemma CreatePacket_buffer_advances:
  "CreatePacket_buffer env st b = (r, b') \<Longrightarrow> r \<noteq> Inr None \<Longrightarrow> m_ReadOffset b < m_ReadOffset b'"
  by (auto simp: CreatePacket_buffer_def Let_def SetReadOffset_def GetReadOffset_def
      Decompress_def read_payload_def split: sum.splits prod.splits if_splits dest!: read_VarInt_Inr)

lemma SendPacket_HandleBuffer: "m_HandleBuffer (SendPacket env st p) = m_HandleBuffer st"
  by (simp add: SendPacket_def Let_def split: prod.splits)

lemma NotifyListeners_HandleBuffer: "m_HandleBuffer (NotifyListeners ev st) = m_HandleBuffer st"
  by (simp add: NotifyListeners_def)

lemma AuthenticateClient_HandleBuffer:
  "m_HandleBuffer (AuthenticateClient env st a b c) = m_HandleBuffer st"
  by (simp add: AuthenticateClient_def Let_def NotifyListeners_HandleBuffer split: prod.splits)

lemma HandlePacket_HandleBuffer: "m_HandleBuffer (HandlePacket env st p) = m_HandleBuffer st"
  by (cases p)
    (simp_all add: HandleKeepAlive_def HandlePlayerPositionAndLook_def HandleDisconnect_def
      HandleEncryptionRequest_def HandleLoginSuccess_def HandleSetCompression_def Let_def
      SendPacket_HandleBuffer NotifyListeners_HandleBuffer AuthenticateClient_HandleBuffer)

lemma Dispatch_HandleBuffer: "m_HandleBuffer (Dispatch env st p) = m_HandleBuffer st"
  by (simp add: Dispatch_def Let_def HandlePacket_HandleBuffer)

lemma poll_step_bytes:
  "m_Buffer (m_HandleBuffer (snd (poll_step env st))) = m_Buffer (m_HandleBuffer st)"
proof -
  obtain r b where rb: "CreatePacket_buffer env st (m_HandleBuffer st) = (r, b)"
    by (cases "CreatePacket_buffer env st (m_HandleBuffer st)")
  have "m_Buffer b = m_Buffer (m_HandleBuffer st)"
    using CreatePacket_buffer_bytes [of env st "m_HandleBuffer st"] rb by simp
  then show ?thesis
    using rb by (auto simp: poll_step_def Let_def Dispatch_HandleBuffer split: sum.splits option.splits)
qed

lemma poll_step_offset_mono:
  "m_ReadOffset (m_HandleBuffer st) \<le> m_ReadOffset (m_HandleBuffer (snd (poll_step env st)))"
proof -
  obtain r b where rb: "CreatePacket_buffer env st (m_HandleBuffer st) = (r, b)"
    by (cases "CreatePacket_buffer env st (m_HandleBuffer st)")
  have "m_ReadOffset (m_HandleBuffer st) \<le> m_ReadOffset b"
    using CreatePacket_buffer_offset_mono [of "m_HandleBuffer st" env st] rb by simp
  then show ?thesis
    using rb by (auto simp: poll_step_def Let_def Dispatch_HandleBuffer split: sum.splits option.splits)
qed

lemma poll_step_continues:
  assumes "poll_step env st = (True, st')"
  shows "GetRemaining (m_HandleBuffer st') < GetRemaining (m_HandleBuffer st)"
proof -
  obtain r b where rb: "CreatePacket_buffer env st (m_HandleBuffer st) = (r, b)"
    by (cases "CreatePacket_buffer env st (m_HandleBuffer st)")
  from assms rb have notnull: "r \<noteq> Inr None"
    by (auto simp: poll_step_def)
  from assms rb have hb: "m_HandleBuffer st' = b" and cond: "loop_cond st'"
    by (auto simp: poll_step_def Let_def Dispatch_HandleBuffer split: sum.splits option.splits)
  have adv: "m_ReadOffset (m_HandleBuffer st) < m_ReadOffset b"
    using CreatePacket_buffer_advances [OF rb notnull] .
  have same: "m_Buffer b = m_Buffer (m_HandleBuffer st)"
    using CreatePacket_buffer_bytes [of env st "m_HandleBuffer st"] rb by simp
  from cond hb have "m_ReadOffset b < length (m_Buffer b)"
    by (simp add: loop_cond_def IsFinished_def)
  with adv same hb show ?thesis
    by (simp add: GetRemaining_def)
qed

text \<open>The \<open>do ... while\<close> loop (lines 184-196).\<close>

function poll_loop ::
  "('s, 'y, 'e) env \<Rightarrow> ('s, 'y, 'e) Connection \<Rightarrow> ('s, 'y, 'e) Connection" where
  "poll_loop env st =
     (if fst (poll_step env st) then poll_loop env (snd (poll_step env st))
      else snd (poll_step env st))"
  by pat_completeness auto
termination
  by (relation "measure (\<lambda>(env, st). GetRemaining (m_HandleBuffer st))")
    (auto intro: poll_step_continues simp: prod_eq_iff)

text \<open>The end of the cycle (lines 198-201).\<close>

definition compact :: "('s, 'y, 'e) Connection \<Rightarrow> ('s, 'y, 'e) Connection" where
  "compact st =
     (if IsFinished (m_HandleBuffer st) then st\<lparr>m_HandleBuffer := DataBuffer_new\<rparr>
      else if GetReadOffset (m_HandleBuffer st) \<noteq> 0
        then st\<lparr>m_HandleBuffer := DataBuffer_from (m_HandleBuffer st) (GetReadOffset (m_HandleBuffer st))\<rparr>
      else st)"

text \<open>\<open>Connection::CreatePacket()\<close> (lines 168-202), the poll cycle.\<close>

definition CreatePacket_poll ::
  "('s, 'y, 'e) env \<Rightarrow> ('s, 'y, 'e) Connection \<Rightarrow> ('s, 'y, 'e) Connection" where
  "CreatePacket_poll env st =
     (let (buffer, sock') = sock_Receive env (m_Socket st) 4096;
          st1 = st\<lparr>m_Socket := sock'\<rparr>
      in if sock_GetStatus env (m_Socket st1) \<noteq> Connected
           then NotifyListeners (OnSocketStateChange (sock_GetStatus env (m_Socket st1))) st1
         else if length buffer = 0 then st1
         else
           (let (decrypted, enc') = Decrypt env (m_Encrypter st1) buffer;
                st2 = st1\<lparr>m_Encrypter := enc',
                          m_HandleBuffer := append_bytes (m_HandleBuffer st1) decrypted\<rparr>
            in compact (poll_loop env st2)))"

declare poll_loop.simps [simp del]

section \<open>A simulated environment\<close>

text \<open>
  Concrete collaborators, to run the member functions on concrete inputs. The socket
  keeps its status, the bytes the peer has delivered, the buffers sent and the addresses
  it was asked to connect to; it connects to the addresses listed as reachable. The
  identity service answers as scripted and logs the calls made to it.
\<close>

record sim_socket =
  sim_status :: SocketStatus
  sim_inbox :: "byte list"
  sim_sent :: "byte list list"
  sim_attempts :: "IPAddress list"

record sim_ygg =
  sim_auth :: YggdrasilResult
  sim_join :: YggdrasilResult
  sim_calls :: "string list"

definition sim_factory :: "State \<Rightarrow> byte list \<Rightarrow> int \<Rightarrow> FactoryResult" where
  "sim_factory s bs n =
     (case bs of
        [] \<Rightarrow> Created (OtherPacket 0)
      | b # rest \<Rightarrow>
          if b = 0 then Created (KeepAlivePacket (int (length rest)))
          else if b = 1 then Created LoginSuccessPacket
          else if b = 2 then Created DisconnectPacket
          else ThrowsUnfinished)"

definition sim_env ::
  "IPAddress list \<Rightarrow> (string \<Rightarrow> IPAddress list) \<Rightarrow> (sim_socket, sim_ygg, nat) env" where
  "sim_env reachable resolver =
     \<lparr>sock_Connect = (\<lambda>s addr port. (addr \<in> set reachable,
         s\<lparr>sim_status := (if addr \<in> set reachable then Connected else sim_status s),
           sim_attempts := sim_attempts s @ [addr]\<rparr>)),
      sock_Disconnect = (\<lambda>s. s\<lparr>sim_status := Disconnected\<rparr>),
      sock_GetStatus = sim_status,
      sock_Send = (\<lambda>s bs. s\<lparr>sim_sent := sim_sent s @ [bs]\<rparr>),
      sock_Receive = (\<lambda>s n. (take n (sim_inbox s), s\<lparr>sim_inbox := drop n (sim_inbox s)\<rparr>)),
      dns_Resolve = resolver,
      ygg_Authenticate = (\<lambda>y user pass. (sim_auth y, y\<lparr>sim_calls := sim_calls y @ [''Authenticate'']\<rparr>)),
      ygg_JoinServer = (\<lambda>y sid secret key. (sim_join y, y\<lparr>sim_calls := sim_calls y @ [''JoinServer'']\<rparr>)),
      aes_new = (\<lambda>key verify. length key),
      aes_GenerateResponsePacket = (\<lambda>e. EncryptionResponsePacket [] []),
      aes_GetSharedSecret = (\<lambda>e. ''secret''),
      aes_Encrypt = (\<lambda>e bs. (map (\<lambda>b. b + 1) bs, e + length bs)),
      aes_Decrypt = (\<lambda>e bs. (map (\<lambda>b. b - 1) bs, e + length bs)),
      z_Compress = (\<lambda>t bs. 0 # bs),
      z_Decompress = (\<lambda>t bs. drop 1 bs),
      packet_Serialize = (\<lambda>p. (case p of OutKeepAlivePacket i \<Rightarrow> [1, 0] | _ \<Rightarrow> [1, 9])),
      factory_CreatePacket = sim_factory\<rparr>"

text \<open>A connection with one listener (number 7), a socket in the given status holding
  the given undelivered bytes, a scripted identity service, and the given pending
  bytes in the handle buffer.\<close>

definition sim_conn ::
  "SocketStatus \<Rightarrow> byte list \<Rightarrow> YggdrasilResult \<Rightarrow> YggdrasilResult \<Rightarrow> State \<Rightarrow> byte list
    \<Rightarrow> (sim_socket, sim_ygg, nat) Connection" where
  "sim_conn status inbox auth join state pending =
     (Connection_new
        \<lparr>sim_status = status, sim_inbox = inbox, sim_sent = [], sim_attempts = []\<rparr>
        \<lparr>sim_auth = auth, sim_join = join, sim_calls = []\<rparr> state [7])
     \<lparr>m_HandleBuffer := \<lparr>m_Buffer = pending, m_ReadOffset = 0\<rparr>\<rparr>"

text \<open>No address is reachable and no name resolves.\<close>

definition sim_offline :: "(sim_socket, sim_ygg, nat) env" where
  "sim_offline = sim_env [] (\<lambda>h. [])"

text \<open>The name \<open>2b2t.org\<close> resolves to one address, which is reachable.\<close>

definition sim_online :: "(sim_socket, sim_ygg, nat) env" where
  "sim_online = sim_env [IPAddress ''203.0.113.5'']
     (\<lambda>h. if h = ''2b2t.org'' then [IPAddress ''203.0.113.5''] else [])"

text \<open>Every name resolves to three addresses, of which the second is reachable.\<close>

definition sim_second :: "(sim_socket, sim_ygg, nat) env" where
  "sim_second = sim_env [IPAddress ''203.0.113.5'']
     (\<lambda>h. [IPAddress ''203.0.113.4'', IPAddress ''203.0.113.5'', IPAddress ''203.0.113.6''])"

text \<open>A connection in \<open>Play\<close> whose peer has delivered a complete frame (a keep-alive)
  followed by the start of another.\<close>

definition sim_play :: "(sim_socket, sim_ygg, nat) Connection" where
  "sim_play = sim_conn Connected [2, 0, 5, 3, 0] (Returns True) (Returns True) Play []"

section \<open>Properties of the handlers\<close>

lemma AuthenticateClient_eq:
  "AuthenticateClient env st sid sec pk =
     (let a = ygg_Authenticate env (m_Yggdrasil st) (m_Username st) (m_Password st);
          j = ygg_JoinServer env (snd a) sid sec pk;
          se = join_step (fst j) (auth_step (fst a) (True, []))
      in st\<lparr>m_Yggdrasil := snd j,
            notified := notified st @ map (\<lambda>l. (l, OnAuthentication (fst se) (snd se))) (m_Listeners st)\<rparr>)"
  by (simp add: AuthenticateClient_def Let_def NotifyListeners_def split: prod.splits)

lemma AuthenticateClient_frame:
  "m_Socket (AuthenticateClient env st a b c) = m_Socket st"
  "m_Encrypter (AuthenticateClient env st a b c) = m_Encrypter st"
  "m_Compressor (AuthenticateClient env st a b c) = m_Compressor st"
  "m_Listeners (AuthenticateClient env st a b c) = m_Listeners st"
  by (simp_all add: AuthenticateClient_eq Let_def)

text \<open>
  C1, as the code has it: when the credential validation call returns false, success is
  cleared and the error "Failed to authenticate" is recorded, and the join-server call
  is still made, on the service as the validation call left it. The listeners are told
  "Failed to authenticate" when the join-server call then returns true, and the
  join-server failure message otherwise.
\<close>

theorem AuthenticateClient_auth_false:
  assumes "fst (ygg_Authenticate env (m_Yggdrasil st) (m_Username st) (m_Password st)) = Returns False"
    and "ygg_JoinServer env
            (snd (ygg_Authenticate env (m_Yggdrasil st) (m_Username st) (m_Password st)))
            sid sec pk = (j, y)"
  shows "auth_step (Returns False) (True, []) = (False, ''Failed to authenticate'')
    \<and> m_Yggdrasil (AuthenticateClient env st sid sec pk) = y
    \<and> notified (AuthenticateClient env st sid sec pk) =
       notified st @ map (\<lambda>l. (l, OnAuthentication False
          (case j of Returns True \<Rightarrow> ''Failed to authenticate''
           | Returns False \<Rightarrow> ''Failed to join server through Yggdrasil.''
           | Throws what \<Rightarrow> what)))
          (m_Listeners st)"
  using assms
  by (auto simp: AuthenticateClient_eq Let_def join_step_def auth_step_def split: YggdrasilResult.splits)

theorem AuthenticateClient_auth_false_witness:
  "fst (ygg_Authenticate sim_offline
      (m_Yggdrasil (sim_conn Connected [] (Returns False) (Returns True) Login [])) [] []) = Returns False
   \<and> notified (AuthenticateClient sim_offline
        (sim_conn Connected [] (Returns False) (Returns True) Login []) ''srv'' ''secret'' ''key'')
      = [(7, OnAuthentication False ''Failed to authenticate'')]"
  using AuthenticateClient_auth_false [of sim_offline
      "sim_conn Connected [] (Returns False) (Returns True) Login []" "''srv''" "''secret''" "''key''"
      "Returns True" "\<lparr>sim_auth = Returns False, sim_join = Returns True,
         sim_calls = [''Authenticate'', ''JoinServer'']\<rparr>"]
  by (simp add: sim_offline_def sim_env_def sim_conn_def Connection_new_def)

text \<open>
  C1, as stated, fails: with an identity service whose credential validation returns
  false, the log of calls made to the service shows the join-server call after the
  validation call.
\<close>

theorem AuthenticateClient_skip_counterexample:
  "fst (ygg_Authenticate sim_offline
      (m_Yggdrasil (sim_conn Connected [] (Returns False) (Returns True) Login [])) [] []) = Returns False
   \<and> sim_calls (m_Yggdrasil (AuthenticateClient sim_offline
        (sim_conn Connected [] (Returns False) (Returns True) Login []) ''srv'' ''secret'' ''key''))
      = [''Authenticate'', ''JoinServer'']"
  by (simp add: AuthenticateClient_eq sim_offline_def sim_env_def sim_conn_def Connection_new_def Let_def)

text \<open>
  C2: for every EncryptionRequest handled, whatever the identity service answers, the
  socket is given the response packet of the new cipher object (serialised, compressed
  and encrypted by the strategies in place when the request arrived), and the
  encrypter after the handler is the new cipher object.
\<close>

theorem HandleEncryptionRequest_sends_and_swaps:
  "m_Socket (HandlePacket env st (EncryptionRequestPacket serverId pubkey verify)) =
     sock_Send env (m_Socket st)
       (fst (Encrypt env (m_Encrypter st)
          (Compress env (m_Compressor st)
             (packet_Serialize env (aes_GenerateResponsePacket env (aes_new env pubkey verify))))))
   \<and> m_Encrypter (HandlePacket env st (EncryptionRequestPacket serverId pubkey verify)) =
     EncryptionStrategyAES (aes_new env pubkey verify)"
  by (simp add: HandleEncryptionRequest_def Let_def SendPacket_def AuthenticateClient_frame
      split: prod.splits)

text \<open>
  C3: handling a Disconnect packet disconnects the socket and notifies every listener
  of the socket's state; every listener is then also notified of a failed login exactly
  when the protocol state is not \<open>Play\<close>. Nothing else of the connection changes.
\<close>

theorem HandleDisconnect_events:
  "HandlePacket env st DisconnectPacket =
     st\<lparr>m_Socket := sock_Disconnect env (m_Socket st),
        notified := notified st
          @ map (\<lambda>l. (l, OnSocketStateChange (sock_GetStatus env (sock_Disconnect env (m_Socket st)))))
              (m_Listeners st)
          @ (if m_ProtocolState st \<noteq> Play then map (\<lambda>l. (l, OnLogin False)) (m_Listeners st) else [])\<rparr>"
  by (simp add: HandleDisconnect_def NotifyListeners_def Let_def)

text \<open>
  C7: the bytes \<open>SendPacket\<close> hands to the socket are the packet's serialisation,
  compressed by the current compressor and then encrypted by the current encrypter;
  the disabled compressor and the disabled encrypter leave the bytes as they are.
\<close>

theorem SendPacket_pipeline:
  "m_Socket (SendPacket env st packet) =
     sock_Send env (m_Socket st)
       (fst (Encrypt env (m_Encrypter st) (Compress env (m_Compressor st) (packet_Serialize env packet))))
   \<and> Compress env CompressionNone bs = bs
   \<and> fst (Encrypt env EncryptionStrategyNone bs) = bs"
  by (simp add: SendPacket_def Let_def Compress_def Encrypt_def split: prod.splits)

text \<open>
  C10: when neither identity-service call returns true, each listener gets one
  \<open>OnAuthentication\<close> callback, with success false and the join-server failure
  message (the fixed text when the call returned false, the exception's text when it
  threw); the text recorded for the failed validation is not reported.
\<close>

theorem AuthenticateClient_both_fail:
  assumes "fst (ygg_Authenticate env (m_Yggdrasil st) (m_Username st) (m_Password st)) \<noteq> Returns True"
    and "fst (ygg_JoinServer env
            (snd (ygg_Authenticate env (m_Yggdrasil st) (m_Username st) (m_Password st)))
            sid sec pk) = j"
    and "j \<noteq> Returns True"
  shows "notified (AuthenticateClient env st sid sec pk) =
     notified st @ map (\<lambda>l. (l, OnAuthentication False
        (case j of Returns b \<Rightarrow> ''Failed to join server through Yggdrasil.'' | Throws what \<Rightarrow> what)))
        (m_Listeners st)"
  using assms
  by (auto simp: AuthenticateClient_eq Let_def join_step_def split: YggdrasilResult.splits)

theorem AuthenticateClient_both_fail_witness:
  "fst (ygg_Authenticate sim_offline
      (m_Yggdrasil (sim_conn Connected [] (Returns False) (Returns False) Login [])) [] []) \<noteq> Returns True
   \<and> fst (ygg_JoinServer sim_offline
      (snd (ygg_Authenticate sim_offline
         (m_Yggdrasil (sim_conn Connected [] (Returns False) (Returns False) Login [])) [] []))
      ''srv'' ''secret'' ''key'') \<noteq> Returns True
   \<and> notified (AuthenticateClient sim_offline
        (sim_conn Connected [] (Returns False) (Returns False) Login []) ''srv'' ''secret'' ''key'') =
     [(7, OnAuthentication False ''Failed to join server through Yggdrasil.'')]"
  using AuthenticateClient_both_fail [of sim_offline
      "sim_conn Connected [] (Returns False) (Returns False) Login []" "''srv''" "''secret''" "''key''"
      "Returns False"]
  by (simp add: sim_offline_def sim_env_def sim_conn_def Connection_new_def)

section \<open>Properties of frame extraction and of the poll cycle\<close>

lemma CreatePacket_buffer_ok:
  "buffer_ok b \<Longrightarrow> buffer_ok (snd (CreatePacket_buffer env st b))"
  by (auto simp: CreatePacket_buffer_def Let_def SetReadOffset_def GetReadOffset_def
      GetRemaining_def Decompress_def read_payload_def buffer_ok_def read_VarInt_def
      split: sum.splits prod.splits option.splits dest!: varint_span_pos)

lemma poll_loop_bytes:
  "m_Buffer (m_HandleBuffer (poll_loop env st)) = m_Buffer (m_HandleBuffer st)"
proof (induction env st rule: poll_loop.induct)
  case (1 env st)
  show ?case
  proof (cases "fst (poll_step env st)")
    case True
    then show ?thesis
      using "1.IH" by (simp add: poll_loop.simps [of env st] poll_step_bytes)
  next
    case False
    then show ?thesis
      by (simp add: poll_loop.simps [of env st] poll_step_bytes)
  qed
qed

lemma poll_loop_offset_mono:
  "m_ReadOffset (m_HandleBuffer st) \<le> m_ReadOffset (m_HandleBuffer (poll_loop env st))"
proof (induction env st rule: poll_loop.induct)
  case (1 env st)
  show ?case
  proof (cases "fst (poll_step env st)")
    case True
    then show ?thesis
      using "1.IH" poll_step_offset_mono [of st env]
      by (simp add: poll_loop.simps [of env st])
  next
    case False
    then show ?thesis
      using poll_step_offset_mono [of st env] by (simp add: poll_loop.simps [of env st])
  qed
qed

lemma SendPacket_dispatched: "dispatched (SendPacket env st p) = dispatched st"
  by (simp add: SendPacket_def Let_def split: prod.splits)

lemma HandlePacket_dispatched: "dispatched (HandlePacket env st p) = dispatched st"
  by (cases p)
    (simp_all add: HandleKeepAlive_def HandlePlayerPositionAndLook_def HandleDisconnect_def
      HandleEncryptionRequest_def HandleLoginSuccess_def HandleSetCompression_def Let_def
      SendPacket_dispatched NotifyListeners_def AuthenticateClient_eq)

lemma Dispatch_dispatched: "dispatched (Dispatch env st p) = dispatched st @ [p]"
  by (simp add: Dispatch_def Let_def HandlePacket_dispatched)

lemma poll_step_dispatched: "\<exists>ps. dispatched (snd (poll_step env st)) = dispatched st @ ps"
  by (auto simp: poll_step_def Let_def Dispatch_dispatched split: prod.splits sum.splits option.splits)

lemma poll_loop_dispatched: "\<exists>ps. dispatched (poll_loop env st) = dispatched st @ ps"
proof (induction env st rule: poll_loop.induct)
  case (1 env st)
  obtain ps where ps: "dispatched (snd (poll_step env st)) = dispatched st @ ps"
    using poll_step_dispatched by blast
  show ?case
  proof (cases "fst (poll_step env st)")
    case True
    with "1.IH" obtain qs where
      "dispatched (poll_loop env (snd (poll_step env st))) = dispatched (snd (poll_step env st)) @ qs"
      by blast
    with True ps show ?thesis
      by (simp add: poll_loop.simps [of env st])
  next
    case False
    with ps show ?thesis
      by (simp add: poll_loop.simps [of env st])
  qed
qed

text \<open>The handle buffer after the end of the cycle, by the cursor the loop stopped at.\<close>

lemma compact_HandleBuffer:
  "m_HandleBuffer (compact st) =
     (if length (m_Buffer (m_HandleBuffer st)) \<le> m_ReadOffset (m_HandleBuffer st)
      then \<lparr>m_Buffer = [], m_ReadOffset = 0\<rparr>
      else \<lparr>m_Buffer = drop (m_ReadOffset (m_HandleBuffer st)) (m_Buffer (m_HandleBuffer st)),
            m_ReadOffset = 0\<rparr>)"
  by (cases "m_HandleBuffer st")
    (simp add: compact_def IsFinished_def GetReadOffset_def DataBuffer_new_def DataBuffer_from_def)

lemma compact_other: "compact st = st\<lparr>m_HandleBuffer := m_HandleBuffer (compact st)\<rparr>"
  by (simp add: compact_def)

text \<open>
  C4: when no terminating byte of the length VarInt is among the bytes at the cursor, or
  the decoded length is more than the bytes left after the length field, frame
  extraction returns no packet and leaves the buffer as it found it, cursor included;
  the loop of the poll cycle then stops with the connection unchanged, and the end of
  the cycle keeps every byte from the cursor on.
\<close>

theorem CreatePacket_incomplete:
  assumes "varint_span (drop (m_ReadOffset b) (m_Buffer b)) = None
     \<or> (\<exists>n. varint_span (drop (m_ReadOffset b) (m_Buffer b)) = Some n
           \<and> length (m_Buffer b) - (m_ReadOffset b + n)
               < unat (varint_value (take n (drop (m_ReadOffset b) (m_Buffer b)))))"
  shows "CreatePacket_buffer env st b = (Inr None, b)
    \<and> poll_step env (st\<lparr>m_HandleBuffer := b\<rparr>) = (False, st\<lparr>m_HandleBuffer := b\<rparr>)
    \<and> m_Buffer (m_HandleBuffer (compact (st\<lparr>m_HandleBuffer := b\<rparr>)))
        = drop (m_ReadOffset b) (m_Buffer b)"
proof -
  have "CreatePacket_buffer env st' b = (Inr None, b)" for st' :: "('a, 'b, 'c) Connection"
    using assms
    by (auto simp: CreatePacket_buffer_def read_VarInt_def Let_def GetRemaining_def
        SetReadOffset_def GetReadOffset_def)
  then show ?thesis
    by (simp add: poll_step_def compact_HandleBuffer)
qed

theorem CreatePacket_incomplete_witness:
  "varint_span [0x83 :: byte] = None
   \<and> CreatePacket_buffer sim_offline sim_play \<lparr>m_Buffer = [1, 0, 0x83], m_ReadOffset = 2\<rparr>
       = (Inr None, \<lparr>m_Buffer = [1, 0, 0x83], m_ReadOffset = 2\<rparr>)
   \<and> varint_span [3 :: byte, 1] = Some 1
   \<and> CreatePacket_buffer sim_offline sim_play \<lparr>m_Buffer = [3, 1], m_ReadOffset = 0\<rparr>
       = (Inr None, \<lparr>m_Buffer = [3, 1], m_ReadOffset = 0\<rparr>)"
  using CreatePacket_incomplete [of "\<lparr>m_Buffer = [1, 0, 0x83], m_ReadOffset = 2\<rparr>" sim_offline sim_play]
    CreatePacket_incomplete [of "\<lparr>m_Buffer = [3, 1], m_ReadOffset = 0\<rparr>" sim_offline sim_play]
  by simp

text \<open>
  C6: a frame whose length VarInt decodes to zero is not held back: the empty payload
  goes through the decompressor, the factory is called with it and the declared length
  0, the cursor moves past the length field, and the result of frame extraction is
  what the factory gives. When the factory returns a packet, the loop dispatches it
  and goes on by its usual condition.
\<close>

theorem CreatePacket_zero_length:
  assumes "varint_span (drop (m_ReadOffset b) (m_Buffer b)) = Some n"
    and "varint_value (take n (drop (m_ReadOffset b) (m_Buffer b))) = 0"
    and "made = factory_CreatePacket env (m_ProtocolState st)
             (case m_Compressor st of CompressionNone \<Rightarrow> [] | CompressionZ t \<Rightarrow> z_Decompress env t [])
             0"
    and "b' = b\<lparr>m_ReadOffset := m_ReadOffset b + n\<rparr>"
  shows "CreatePacket_buffer env st b =
     (case made of
        Created packet \<Rightarrow> Inr (Some packet)
      | NullPacket \<Rightarrow> Inr None
      | ThrowsUnfinished \<Rightarrow> Inl UnfinishedProtocolException,
      b')
    \<and> (\<forall>packet. made = Created packet \<longrightarrow>
         poll_step env (st\<lparr>m_HandleBuffer := b\<rparr>) =
           (loop_cond (Dispatch env (st\<lparr>m_HandleBuffer := b'\<rparr>) packet),
            Dispatch env (st\<lparr>m_HandleBuffer := b'\<rparr>) packet))"
proof -
  have "CreatePacket_buffer env st' b =
     (case factory_CreatePacket env (m_ProtocolState st')
             (case m_Compressor st' of CompressionNone \<Rightarrow> [] | CompressionZ t \<Rightarrow> z_Decompress env t [])
             0 of
        Created packet \<Rightarrow> Inr (Some packet)
      | NullPacket \<Rightarrow> Inr None
      | ThrowsUnfinished \<Rightarrow> Inl UnfinishedProtocolException,
      b')" for st' :: "('a, 'b, 'c) Connection"
    using assms(1,2,4)
    by (simp add: CreatePacket_buffer_def read_VarInt_def Let_def GetRemaining_def
        Decompress_def read_payload_def)
  from this [of st] this [of "st\<lparr>m_HandleBuffer := b\<rparr>"] assms(3) show ?thesis
    by (auto simp: poll_step_def Let_def)
qed

theorem CreatePacket_zero_length_witness:
  "varint_span [0 :: byte, 7] = Some 1
   \<and> varint_value [0 :: byte] = 0
   \<and> CreatePacket_buffer sim_offline sim_play \<lparr>m_Buffer = [0, 7], m_ReadOffset = 0\<rparr>
       = (Inr (Some (OtherPacket 0)), \<lparr>m_Buffer = [0, 7], m_ReadOffset = 1\<rparr>)"
  using CreatePacket_zero_length [of "\<lparr>m_Buffer = [0, 7], m_ReadOffset = 0\<rparr>" 1
      "Created (OtherPacket 0)" sim_offline sim_play "\<lparr>m_Buffer = [0, 7], m_ReadOffset = 1\<rparr>"]
  by (simp add: sim_offline_def sim_play_def sim_factory_def sim_env_def sim_conn_def Connection_new_def)

text \<open>
  C9: a poll in which the socket delivers no byte and reports \<open>Connected\<close> changes
  nothing of the connection but the socket object the receive call returned: the handle
  buffer, both strategies (no decryption is done), the protocol state, and the packets
  dispatched and listeners notified so far all stay, whatever the handle buffer holds.
\<close>

theorem poll_zero_bytes:
  assumes "sock_Receive env (m_Socket st) 4096 = ([], s')"
    and "sock_GetStatus env s' = Connected"
  shows "CreatePacket_poll env st = st\<lparr>m_Socket := s'\<rparr>"
  using assms by (simp add: CreatePacket_poll_def Let_def)

text \<open>The instance: the handle buffer already holds a complete keep-alive frame.\<close>

theorem poll_zero_bytes_witness:
  "sock_Receive sim_offline (m_Socket (sim_conn Connected [] (Returns True) (Returns True) Play [2, 0, 5])) 4096
     = ([], m_Socket (sim_conn Connected [] (Returns True) (Returns True) Play [2, 0, 5]))
   \<and> fst (CreatePacket_buffer sim_offline (sim_conn Connected [] (Returns True) (Returns True) Play [2, 0, 5])
        \<lparr>m_Buffer = [2, 0, 5], m_ReadOffset = 0\<rparr>) = Inr (Some (KeepAlivePacket 1))
   \<and> CreatePacket_poll sim_offline (sim_conn Connected [] (Returns True) (Returns True) Play [2, 0, 5])
     = sim_conn Connected [] (Returns True) (Returns True) Play [2, 0, 5]"
  using poll_zero_bytes [of sim_offline "sim_conn Connected [] (Returns True) (Returns True) Play [2, 0, 5]"
      "m_Socket (sim_conn Connected [] (Returns True) (Returns True) Play [2, 0, 5])"]
  by (simp add: sim_offline_def sim_factory_def sim_env_def sim_conn_def Connection_new_def
      poll_step_def CreatePacket_buffer_def read_VarInt_def append_bytes_def
      GetReadOffset_def GetRemaining_def SetReadOffset_def Decompress_def read_payload_def
      Dispatch_def loop_cond_def IsFinished_def GetSize_def Let_def HandleKeepAlive_def
      SendPacket_def Compress_def Encrypt_def Decrypt_def)

subsection \<open>Compaction cannot be observed by the next cycle\<close>

text \<open>
  \<open>rebase j\<close> drops the first \<open>j\<close> bytes of a buffer and moves the cursor back by as
  much. Frame extraction, the loop and the poll cycle commute with it as long as \<open>j\<close>
  is not past the cursor, and the end of the cycle is \<open>rebase\<close> by the cursor itself.
\<close>

definition rebase :: "nat \<Rightarrow> DataBuffer \<Rightarrow> DataBuffer" where
  "rebase j b = \<lparr>m_Buffer = drop j (m_Buffer b), m_ReadOffset = m_ReadOffset b - j\<rparr>"

definition rebase_conn :: "nat \<Rightarrow> ('s, 'y, 'e) Connection \<Rightarrow> ('s, 'y, 'e) Connection" where
  "rebase_conn j st = st\<lparr>m_HandleBuffer := rebase j (m_HandleBuffer st)\<rparr>"

lemma compact_rebase: "compact st = rebase_conn (m_ReadOffset (m_HandleBuffer st)) st"
  by (cases st; cases "m_HandleBuffer st")
    (auto simp: compact_def rebase_conn_def rebase_def IsFinished_def GetReadOffset_def
      DataBuffer_new_def DataBuffer_from_def)

lemma rebase_simps:
  "m_ReadOffset (rebase j b) = m_ReadOffset b - j"
  "m_Buffer (rebase j b) = drop j (m_Buffer b)"
  by (simp_all add: rebase_def)

lemma read_VarInt_rebase:
  assumes "j \<le> m_ReadOffset b"
  shows "read_VarInt (rebase j b) =
     (case read_VarInt b of Inl e \<Rightarrow> Inl e | Inr (v, b') \<Rightarrow> Inr (v, rebase j b'))"
proof -
  have "drop (m_ReadOffset b - j) (drop j (m_Buffer b)) = drop (m_ReadOffset b) (m_Buffer b)"
    using assms by simp
  then show ?thesis
    using assms by (simp add: read_VarInt_def rebase_def Let_def split: option.splits)
qed

lemma GetRemaining_rebase: "j \<le> m_ReadOffset b \<Longrightarrow> GetRemaining (rebase j b) = GetRemaining b"
  by (simp add: GetRemaining_def rebase_def)

lemma Decompress_rebase:
  assumes "j \<le> m_ReadOffset b"
  shows "Decompress env c (rebase j b) n =
     (fst (Decompress env c b n), rebase j (snd (Decompress env c b n)))"
proof -
  have "drop (m_ReadOffset b - j) (drop j (m_Buffer b)) = drop (m_ReadOffset b) (m_Buffer b)"
    using assms by simp
  then show ?thesis
    using assms by (simp add: Decompress_def read_payload_def rebase_def)
qed

lemma CreatePacket_buffer_rebase:
  assumes "j \<le> m_ReadOffset b"
  shows "CreatePacket_buffer env st (rebase j b) =
     (fst (CreatePacket_buffer env st b), rebase j (snd (CreatePacket_buffer env st b)))"
proof (cases "read_VarInt b")
  case (Inl e)
  then show ?thesis
    using assms by (simp add: CreatePacket_buffer_def read_VarInt_rebase)
next
  case (Inr vb)
  obtain v b1 where vb: "vb = (v, b1)" by (cases vb)
  with Inr have j1: "j \<le> m_ReadOffset b1"
    using assms read_VarInt_Inr [of b v b1] by simp
  have rewind: "SetReadOffset (rebase j b1) (m_ReadOffset b - j) = rebase j (SetReadOffset b1 (m_ReadOffset b))"
    by (simp add: SetReadOffset_def rebase_def)
  show ?thesis
    using Inr vb assms j1
    by (simp add: CreatePacket_buffer_def read_VarInt_rebase GetRemaining_rebase rewind
        Decompress_rebase [OF j1] Let_def GetReadOffset_def rebase_simps
        split: prod.splits)
qed

lemma SendPacket_buffer_update:
  "SendPacket env (st\<lparr>m_HandleBuffer := b\<rparr>) p = (SendPacket env st p)\<lparr>m_HandleBuffer := b\<rparr>"
  by (simp add: SendPacket_def Let_def split: prod.splits)

lemma HandlePacket_buffer_update:
  "HandlePacket env (st\<lparr>m_HandleBuffer := b\<rparr>) p = (HandlePacket env st p)\<lparr>m_HandleBuffer := b\<rparr>"
  by (cases p)
    (simp_all add: HandleKeepAlive_def HandlePlayerPositionAndLook_def HandleDisconnect_def
      HandleEncryptionRequest_def HandleLoginSuccess_def HandleSetCompression_def Let_def
      SendPacket_def NotifyListeners_def AuthenticateClient_eq split: prod.splits)

lemma Dispatch_buffer_update:
  "Dispatch env (st\<lparr>m_HandleBuffer := b\<rparr>) p = (Dispatch env st p)\<lparr>m_HandleBuffer := b\<rparr>"
proof -
  have comm: "(st\<lparr>m_HandleBuffer := b\<rparr>)\<lparr>dispatched := d\<rparr>
      = (st\<lparr>dispatched := d\<rparr>)\<lparr>m_HandleBuffer := b\<rparr>" for d
    by simp
  show ?thesis
    by (simp add: Dispatch_def Let_def comm HandlePacket_buffer_update)
qed

lemma rebase_conn_simps:
  "m_HandleBuffer (rebase_conn j st) = rebase j (m_HandleBuffer st)"
  "m_Socket (rebase_conn j st) = m_Socket st"
  "m_Encrypter (rebase_conn j st) = m_Encrypter st"
  "m_Compressor (rebase_conn j st) = m_Compressor st"
  "m_ProtocolState (rebase_conn j st) = m_ProtocolState st"
  by (simp_all add: rebase_conn_def)

lemma CreatePacket_buffer_cong:
  "m_Compressor st = m_Compressor st' \<Longrightarrow> m_ProtocolState st = m_ProtocolState st' \<Longrightarrow>
     CreatePacket_buffer env st b = CreatePacket_buffer env st' b"
  by (auto simp: CreatePacket_buffer_def Let_def split: sum.splits prod.splits)

lemma loop_cond_rebase:
  "j \<le> m_ReadOffset (m_HandleBuffer st) \<Longrightarrow> loop_cond (rebase_conn j st) = loop_cond st"
  by (auto simp: loop_cond_def rebase_conn_def rebase_def IsFinished_def GetSize_def)

lemma poll_step_rebase:
  assumes "j \<le> m_ReadOffset (m_HandleBuffer st)"
  shows "poll_step env (rebase_conn j st) = (fst (poll_step env st), rebase_conn j (snd (poll_step env st)))"
proof -
  obtain r b where rb: "CreatePacket_buffer env st (m_HandleBuffer st) = (r, b)"
    by (cases "CreatePacket_buffer env st (m_HandleBuffer st)")
  have same: "CreatePacket_buffer env (rebase_conn j st) buf = CreatePacket_buffer env st buf" for buf
    by (rule CreatePacket_buffer_cong) (simp_all add: rebase_conn_simps)
  have reb: "CreatePacket_buffer env (rebase_conn j st) (m_HandleBuffer (rebase_conn j st)) = (r, rebase j b)"
    using CreatePacket_buffer_rebase [OF assms, of env st] rb
    by (simp add: same rebase_conn_simps)
  have jb: "j \<le> m_ReadOffset b"
    using assms CreatePacket_buffer_offset_mono [of "m_HandleBuffer st" env st] rb by simp
  have upd: "(rebase_conn j st)\<lparr>m_HandleBuffer := rebase j b\<rparr> = rebase_conn j (st\<lparr>m_HandleBuffer := b\<rparr>)"
    by (simp add: rebase_conn_def)
  have disp: "Dispatch env (rebase_conn j (st\<lparr>m_HandleBuffer := b\<rparr>)) p
      = rebase_conn j (Dispatch env (st\<lparr>m_HandleBuffer := b\<rparr>) p)" for p
    by (simp add: rebase_conn_def Dispatch_buffer_update Dispatch_HandleBuffer)
  have jd: "j \<le> m_ReadOffset (m_HandleBuffer (Dispatch env (st\<lparr>m_HandleBuffer := b\<rparr>) p))" for p
    using jb by (simp add: Dispatch_HandleBuffer)
  show ?thesis
  proof (cases r)
    case (Inl e)
    then show ?thesis
      using rb reb jb by (simp add: poll_step_def upd Let_def loop_cond_rebase)
  next
    case (Inr po)
    then show ?thesis
      using rb reb jb jd
      by (cases po) (simp_all add: poll_step_def upd disp Let_def loop_cond_rebase)
  qed
qed

lemma poll_loop_rebase:
  "j \<le> m_ReadOffset (m_HandleBuffer st) \<Longrightarrow>
     poll_loop env (rebase_conn j st) = rebase_conn j (poll_loop env st)"
proof (induction env st rule: poll_loop.induct)
  case (1 env st)
  have step: "poll_step env (rebase_conn j st) = (fst (poll_step env st), rebase_conn j (snd (poll_step env st)))"
    using poll_step_rebase [OF "1.prems"] .
  have j': "j \<le> m_ReadOffset (m_HandleBuffer (snd (poll_step env st)))"
    using "1.prems" poll_step_offset_mono [of st env] by simp
  show ?case
  proof (cases "fst (poll_step env st)")
    case True
    then show ?thesis
      using "1.IH" [OF True j'] step
      by (simp add: poll_loop.simps [of env st] poll_loop.simps [of env "rebase_conn j st"])
  next
    case False
    then show ?thesis
      using step
      by (simp add: poll_loop.simps [of env st] poll_loop.simps [of env "rebase_conn j st"])
  qed
qed

lemma compact_rebase_conn:
  "j \<le> m_ReadOffset (m_HandleBuffer st) \<Longrightarrow> compact (rebase_conn j st) = compact st"
  by (simp add: compact_rebase rebase_conn_def rebase_def)

lemma NotifyListeners_rebase:
  "NotifyListeners ev (rebase_conn j st) = rebase_conn j (NotifyListeners ev st)"
  by (simp add: NotifyListeners_def rebase_conn_def)

lemma poll_rebase:
  assumes "j \<le> m_ReadOffset (m_HandleBuffer st)" and "buffer_ok (m_HandleBuffer st)"
  shows "compact (CreatePacket_poll env (rebase_conn j st)) = compact (CreatePacket_poll env st)"
proof -
  obtain buffer s' where recv: "sock_Receive env (m_Socket st) 4096 = (buffer, s')"
    by (cases "sock_Receive env (m_Socket st) 4096")
  obtain decrypted enc' where dec: "Decrypt env (m_Encrypter st) buffer = (decrypted, enc')"
    by (cases "Decrypt env (m_Encrypter st) buffer")
  let ?st2 = "st\<lparr>m_Socket := s', m_Encrypter := enc',
      m_HandleBuffer := append_bytes (m_HandleBuffer st) decrypted\<rparr>"
  have jl: "j \<le> length (m_Buffer (m_HandleBuffer st))"
    using assms by (simp add: buffer_ok_def)
  have app: "append_bytes (rebase j (m_HandleBuffer st)) decrypted
      = rebase j (append_bytes (m_HandleBuffer st) decrypted)"
    using jl by (simp add: append_bytes_def rebase_def)
  have st2: "(rebase_conn j st)\<lparr>m_Socket := s', m_Encrypter := enc',
      m_HandleBuffer := append_bytes (m_HandleBuffer (rebase_conn j st)) decrypted\<rparr> = rebase_conn j ?st2"
    by (simp add: rebase_conn_def app)
  have j2: "j \<le> m_ReadOffset (m_HandleBuffer ?st2)"
    using assms(1) by (simp add: append_bytes_def)
  have j3: "j \<le> m_ReadOffset (m_HandleBuffer (poll_loop env ?st2))"
    using j2 poll_loop_offset_mono [of ?st2 env] by simp
  have early1: "compact (rebase_conn j (x\<lparr>m_Socket := s'\<rparr>)) = compact (x\<lparr>m_Socket := s'\<rparr>)"
    if "m_HandleBuffer x = m_HandleBuffer st" for x :: "('a, 'b, 'c) Connection"
    using that assms(1) by (simp add: compact_rebase_conn)
  have sw: "(rebase_conn j st)\<lparr>m_Socket := s'\<rparr> = rebase_conn j (st\<lparr>m_Socket := s'\<rparr>)"
    by (simp add: rebase_conn_def)
  show ?thesis
  proof (cases "sock_GetStatus env s' \<noteq> Connected")
    case True
    then show ?thesis
      using recv assms(1)
      by (simp add: CreatePacket_poll_def Let_def sw NotifyListeners_rebase rebase_conn_simps
          compact_rebase_conn NotifyListeners_HandleBuffer)
  next
    case False
    note conn = this
    show ?thesis
    proof (cases "buffer = []")
      case True
      then show ?thesis
        using recv conn assms(1)
        by (simp add: CreatePacket_poll_def Let_def sw compact_rebase_conn rebase_conn_simps)
    next
      case False
      have l: "CreatePacket_poll env (rebase_conn j st) = compact (poll_loop env (rebase_conn j ?st2))"
        using recv conn False dec st2
        by (simp add: CreatePacket_poll_def Let_def rebase_conn_simps)
      have r: "CreatePacket_poll env st = compact (poll_loop env ?st2)"
        using recv conn False dec by (simp add: CreatePacket_poll_def Let_def)
      show ?thesis
        using l r poll_loop_rebase [OF j2, of env] compact_rebase_conn [OF j3] by simp
    qed
  qed
qed

lemma compact_unobservable:
  assumes "buffer_ok (m_HandleBuffer st)"
  shows "compact (CreatePacket_poll env (compact st)) = compact (CreatePacket_poll env st)"
  using poll_rebase [OF order_refl assms] by (simp add: compact_rebase)

lemma poll_step_ok:
  "buffer_ok (m_HandleBuffer st) \<Longrightarrow> buffer_ok (m_HandleBuffer (snd (poll_step env st)))"
  using CreatePacket_buffer_ok [of "m_HandleBuffer st" env st]
  by (auto simp: poll_step_def Let_def Dispatch_HandleBuffer split: prod.splits sum.splits option.splits)

lemma poll_loop_ok:
  "buffer_ok (m_HandleBuffer st) \<Longrightarrow> buffer_ok (m_HandleBuffer (poll_loop env st))"
proof (induction env st rule: poll_loop.induct)
  case (1 env st)
  show ?case
  proof (cases "fst (poll_step env st)")
    case True
    then show ?thesis
      using "1.IH" [OF True poll_step_ok [OF "1.prems"]] by (simp add: poll_loop.simps [of env st])
  next
    case False
    then show ?thesis
      using poll_step_ok [OF "1.prems"] by (simp add: poll_loop.simps [of env st])
  qed
qed

lemma compact_ok: "buffer_ok (m_HandleBuffer (compact st))"
  by (simp add: compact_HandleBuffer buffer_ok_def)

text \<open>The cursor stays within the buffer: the constructor sets it so and every poll
  cycle keeps it so.\<close>

lemma Connection_new_ok: "buffer_ok (m_HandleBuffer (Connection_new sock ygg state0 listeners))"
  by (simp add: Connection_new_def DataBuffer_new_def buffer_ok_def)

lemma poll_ok:
  "buffer_ok (m_HandleBuffer st) \<Longrightarrow> buffer_ok (m_HandleBuffer (CreatePacket_poll env st))"
  by (auto simp: CreatePacket_poll_def Let_def compact_ok NotifyListeners_HandleBuffer
      split: prod.splits)

text \<open>
  C5: take a poll cycle in which the socket is connected and delivers bytes; \<open>pending\<close>
  is what is buffered once the decrypted bytes are appended, \<open>k\<close> the cursor at which
  the loop stops. The loop leaves the buffered bytes as they are and moves the cursor
  forward only. After the cycle the handle buffer is empty when the cursor has reached
  the end, and otherwise holds exactly the bytes from the cursor on, with the cursor at
  zero; the rest of the connection is as the loop left it. The consumed prefix followed
  by the retained bytes is \<open>pending\<close>: no byte is lost or doubled. The packets dispatched
  before the cycle are still the beginning of the list of dispatched packets. And the
  next cycle ends in the same connection whether it starts from the compacted buffer
  or from the whole buffer with its cursor at \<open>k\<close>, past every frame already extracted.
\<close>

theorem poll_compacts:
  assumes "sock_Receive env (m_Socket st) 4096 = (buffer, s')"
    and "sock_GetStatus env s' = Connected"
    and "buffer \<noteq> []"
    and "Decrypt env (m_Encrypter st) buffer = (decrypted, enc')"
    and "pending = m_Buffer (m_HandleBuffer st) @ decrypted"
    and "after_loop = poll_loop env (st\<lparr>m_Socket := s', m_Encrypter := enc',
           m_HandleBuffer := append_bytes (m_HandleBuffer st) decrypted\<rparr>)"
    and "k = m_ReadOffset (m_HandleBuffer after_loop)"
    and "buffer_ok (m_HandleBuffer st)"
  shows "m_Buffer (m_HandleBuffer after_loop) = pending
    \<and> m_ReadOffset (m_HandleBuffer st) \<le> k \<and> k \<le> length pending
    \<and> CreatePacket_poll env st = after_loop\<lparr>m_HandleBuffer :=
          (if length pending \<le> k then \<lparr>m_Buffer = [], m_ReadOffset = 0\<rparr>
           else \<lparr>m_Buffer = drop k pending, m_ReadOffset = 0\<rparr>)\<rparr>
    \<and> take k pending @ m_Buffer (m_HandleBuffer (CreatePacket_poll env st)) = pending
    \<and> (\<exists>ps. dispatched (CreatePacket_poll env st) = dispatched st @ ps)
    \<and> compact (CreatePacket_poll env (CreatePacket_poll env st))
        = compact (CreatePacket_poll env after_loop)"
proof -
  let ?st2 = "st\<lparr>m_Socket := s', m_Encrypter := enc',
           m_HandleBuffer := append_bytes (m_HandleBuffer st) decrypted\<rparr>"
  have bytes: "m_Buffer (m_HandleBuffer after_loop) = pending"
    using assms(5,6) poll_loop_bytes [of env ?st2] by (simp add: append_bytes_def)
  have mono: "m_ReadOffset (m_HandleBuffer st) \<le> k"
    using assms(6,7) poll_loop_offset_mono [of ?st2 env] by (simp add: append_bytes_def)
  have "buffer_ok (m_HandleBuffer ?st2)"
    using assms(8) by (simp add: buffer_ok_def append_bytes_def)
  then have ok: "buffer_ok (m_HandleBuffer after_loop)"
    using assms(6) poll_loop_ok by blast
  then have bound: "k \<le> length pending"
    using bytes assms(7) by (simp add: buffer_ok_def)
  have poll: "CreatePacket_poll env st = compact after_loop"
    using assms(1-4,6) by (simp add: CreatePacket_poll_def Let_def)
  have hb: "m_HandleBuffer (compact after_loop) =
      (if length pending \<le> k then \<lparr>m_Buffer = [], m_ReadOffset = 0\<rparr>
       else \<lparr>m_Buffer = drop k pending, m_ReadOffset = 0\<rparr>)"
    using bytes assms(7) by (simp add: compact_HandleBuffer)
  have eq: "CreatePacket_poll env st = after_loop\<lparr>m_HandleBuffer :=
          (if length pending \<le> k then \<lparr>m_Buffer = [], m_ReadOffset = 0\<rparr>
           else \<lparr>m_Buffer = drop k pending, m_ReadOffset = 0\<rparr>)\<rparr>"
    using poll hb compact_other [of after_loop] by simp
  have cons: "take k pending @ m_Buffer (m_HandleBuffer (CreatePacket_poll env st)) = pending"
    using poll hb by simp
  obtain ps where "dispatched after_loop = dispatched ?st2 @ ps"
    using assms(6) poll_loop_dispatched [of env ?st2] by blast
  then have disp: "\<exists>ps. dispatched (CreatePacket_poll env st) = dispatched st @ ps"
    using eq by simp
  have next_cycle: "compact (CreatePacket_poll env (CreatePacket_poll env st))
        = compact (CreatePacket_poll env after_loop)"
    using compact_unobservable [OF ok, of env] poll by simp
  from bytes mono bound eq cons disp next_cycle show ?thesis by blast
qed

lemma sim_loop:
  "poll_loop sim_offline
     (sim_play\<lparr>m_Socket := (m_Socket sim_play)\<lparr>sim_inbox := []\<rparr>,
        m_Encrypter := EncryptionStrategyNone,
        m_HandleBuffer := append_bytes (m_HandleBuffer sim_play) [2, 0, 5, 3, 0]\<rparr>) =
   sim_play\<lparr>m_Socket := (m_Socket sim_play)\<lparr>sim_inbox := [], sim_sent := [[1, 0]]\<rparr>,
        m_Encrypter := EncryptionStrategyNone,
        m_HandleBuffer := \<lparr>m_Buffer = [2, 0, 5, 3, 0], m_ReadOffset = 3\<rparr>,
        dispatched := [KeepAlivePacket 1]\<rparr>"
  by (simp add: poll_loop.simps sim_offline_def sim_play_def sim_factory_def sim_env_def sim_conn_def Connection_new_def
      poll_step_def CreatePacket_buffer_def read_VarInt_def append_bytes_def
      GetReadOffset_def GetRemaining_def SetReadOffset_def Decompress_def read_payload_def
      Dispatch_def loop_cond_def IsFinished_def GetSize_def Let_def HandleKeepAlive_def
      SendPacket_def Compress_def Encrypt_def Decrypt_def)

text \<open>The instance: a keep-alive frame and the first two bytes of a frame of three arrive;
  the keep-alive is dispatched and answered, the two bytes stay.\<close>

theorem poll_compacts_witness:
  "sock_Receive sim_offline (m_Socket sim_play) 4096
     = ([2, 0, 5, 3, 0], (m_Socket sim_play)\<lparr>sim_inbox := []\<rparr>)
   \<and> buffer_ok (m_HandleBuffer sim_play)
   \<and> m_HandleBuffer (CreatePacket_poll sim_offline sim_play) = \<lparr>m_Buffer = [3, 0], m_ReadOffset = 0\<rparr>
   \<and> dispatched (CreatePacket_poll sim_offline sim_play) = [KeepAlivePacket 1]
   \<and> sim_sent (m_Socket (CreatePacket_poll sim_offline sim_play)) = [[1, 0]]"
  using poll_compacts [of sim_offline sim_play "[2, 0, 5, 3, 0]"
      "(m_Socket sim_play)\<lparr>sim_inbox := []\<rparr>" "[2, 0, 5, 3, 0]" EncryptionStrategyNone
      "[2, 0, 5, 3, 0]"
      "sim_play\<lparr>m_Socket := (m_Socket sim_play)\<lparr>sim_inbox := [], sim_sent := [[1, 0]]\<rparr>,
        m_Encrypter := EncryptionStrategyNone,
        m_HandleBuffer := \<lparr>m_Buffer = [2, 0, 5, 3, 0], m_ReadOffset = 3\<rparr>,
        dispatched := [KeepAlivePacket 1]\<rparr>" 3]
    sim_loop
  by (simp add: sim_offline_def sim_play_def sim_factory_def sim_env_def sim_conn_def Connection_new_def buffer_ok_def
      poll_step_def CreatePacket_buffer_def read_VarInt_def append_bytes_def
      GetReadOffset_def GetRemaining_def SetReadOffset_def Decompress_def read_payload_def
      Dispatch_def loop_cond_def IsFinished_def GetSize_def Let_def HandleKeepAlive_def
      SendPacket_def Compress_def Encrypt_def Decrypt_def)

section \<open>Connecting\<close>

lemma Connect_finish_notified:
  "notified (snd (Connect_finish env st r)) =
     notified st @ (if fst r then map (\<lambda>l. (l, OnSocketStateChange (sock_GetStatus env (snd r)))) (m_Listeners st)
                    else [])"
  by (simp add: Connect_finish_def Let_def NotifyListeners_def)

lemma Connect_finish_socket: "m_Socket (snd (Connect_finish env st r)) = snd r"
  by (simp add: Connect_finish_def Let_def NotifyListeners_def)

text \<open>
  C8, as the code has it: for a host that is not empty, \<open>Connect\<close> connects the socket
  directly to the address built from the host text when the host's first character is
  a decimal digit; otherwise it resolves the host and tries the addresses in order
  until the socket connects to one or none is left. It returns that outcome, and every
  listener is notified of the socket's state exactly when the outcome is success.
\<close>

theorem Connect_by_first_character:
  assumes "server = c # cs"
    and "Connect env st server port = (r, st')"
    and "direct = sock_Connect env (m_Socket st) (IPAddress server) port"
    and "resolved = try_addrs env (m_Socket st) (dns_Resolve env server) port"
  shows "(r, m_Socket st') = (if isdigit c then (Inr (fst direct), snd direct)
                               else (Inr (fst resolved), snd resolved))
    \<and> notified st' = notified st
         @ (if r = Inr True
            then map (\<lambda>l. (l, OnSocketStateChange (sock_GetStatus env (m_Socket st')))) (m_Listeners st)
            else [])"
proof (cases "isdigit c")
  case True
  then have "Connect env st server port =
      Connect_finish env (st\<lparr>m_Server := server, m_Port := port\<rparr>) direct"
    using assms(1,3) by (simp add: Connect_def Let_def)
  with assms(2) True show ?thesis
    using Connect_finish_notified [of env "st\<lparr>m_Server := server, m_Port := port\<rparr>" direct]
      Connect_finish_socket [of env "st\<lparr>m_Server := server, m_Port := port\<rparr>" direct]
    by (auto simp: Connect_finish_def Let_def)
next
  case False
  show ?thesis
  proof (cases "dns_Resolve env server")
    case Nil
    then show ?thesis
      using assms False by (auto simp: Connect_def Let_def)
  next
    case (Cons a as)
    then have "Connect env st server port =
        Connect_finish env (st\<lparr>m_Server := server, m_Port := port\<rparr>) resolved"
      using assms(1,4) False by (simp add: Connect_def Let_def)
    with assms(2) False show ?thesis
      using Connect_finish_notified [of env "st\<lparr>m_Server := server, m_Port := port\<rparr>" resolved]
        Connect_finish_socket [of env "st\<lparr>m_Server := server, m_Port := port\<rparr>" resolved]
      by (auto simp: Connect_finish_def Let_def)
  qed
qed

text \<open>The instance: the name resolves to an unreachable address, a reachable one and a
  third; the first two are tried, in order, and the listener hears of the connected
  socket.\<close>

theorem Connect_by_first_character_witness:
  "\<not> isdigit (CHR ''m'')
   \<and> dns_Resolve sim_second ''mc.example.org''
       = [IPAddress ''203.0.113.4'', IPAddress ''203.0.113.5'', IPAddress ''203.0.113.6'']
   \<and> fst (Connect sim_second (sim_conn Disconnected [] (Returns True) (Returns True) Handshake [])
          ''mc.example.org'' 25565) = Inr True
   \<and> sim_attempts (m_Socket (snd (Connect sim_second
          (sim_conn Disconnected [] (Returns True) (Returns True) Handshake []) ''mc.example.org'' 25565)))
       = [IPAddress ''203.0.113.4'', IPAddress ''203.0.113.5'']
   \<and> notified (snd (Connect sim_second
          (sim_conn Disconnected [] (Returns True) (Returns True) Handshake []) ''mc.example.org'' 25565))
       = [(7, OnSocketStateChange Connected)]"
  using Connect_by_first_character [where c = "CHR ''m''" and cs = "''c.example.org''"
      and env = sim_second
      and st = "sim_conn Disconnected [] (Returns True) (Returns True) Handshake []"
      and port = 25565, OF refl surjective_pairing refl refl]
  by (simp add: sim_second_def sim_env_def sim_conn_def Connection_new_def isdigit_def)

text \<open>
  C8, as stated, fails: the host \<open>2b2t.org\<close> is a name, not a numeric address (it has
  the letter b); it resolves to an address the socket can connect to; yet \<open>Connect\<close>
  returns failure, and the only address the socket was asked to connect to is the one
  built from the host text, because the host begins with a digit.
\<close>

theorem Connect_digit_hostname_counterexample:
  "CHR ''b'' \<in> set ''2b2t.org''
   \<and> dns_Resolve sim_online ''2b2t.org'' = [IPAddress ''203.0.113.5'']
   \<and> fst (sock_Connect sim_online
        (m_Socket (sim_conn Disconnected [] (Returns True) (Returns True) Handshake []))
        (IPAddress ''203.0.113.5'') 25565)
   \<and> fst (Connect sim_online (sim_conn Disconnected [] (Returns True) (Returns True) Handshake [])
        ''2b2t.org'' 25565) = Inr False
   \<and> sim_attempts (m_Socket (snd (Connect sim_online
        (sim_conn Disconnected [] (Returns True) (Returns True) Handshake []) ''2b2t.org'' 25565)))
      = [IPAddress ''2b2t.org'']"
  by (simp add: sim_online_def sim_env_def sim_conn_def Connection_new_def isdigit_def Connect_def Connect_finish_def NotifyListeners_def Let_def)

end
